theory Spec2Isabelle
  imports Main "HOL-Library.Code_Target_Numeral"
begin

section \<open>Endpoint registration of skype-http (src/lib/api/register-endpoint.ts)\<close>

text \<open>
  The development embeds \<^verbatim>\<open>register-endpoint.ts\<close>: the challenge response
  \<^verbatim>\<open>getLockAndKeyResponse\<close> and the handshake \<^verbatim>\<open>registerEndpoint\<close>.

  Conventions of the embedding.
  \<^item> A JavaScript string is a \<open>string\<close> (a list of 8-bit characters); the model covers
    ASCII text, which is what header values, host names and decimal numerals are.
  \<^item> A value that may be \<^verbatim>\<open>undefined\<close> is an \<open>option\<close>, \<open>None\<close> being
    \<^verbatim>\<open>undefined\<close>. A host is a \<open>jsstring\<close>: at run time it is a string,
    \<^verbatim>\<open>null\<close> or \<^verbatim>\<open>undefined\<close>, and the code tells the three apart.
  \<^item> A \<^verbatim>\<open>Dictionary<string>\<close> that the code only reads is a map
    \<open>string \<rightharpoonup> string\<close>; one that the code builds as an object literal is the list of
    its pairs, in the order of the literal.
  \<^item> Record fields carry a short prefix of their type (\<open>res_\<close> for \<^verbatim>\<open>io.Response\<close>,
    \<open>req_\<close> for \<^verbatim>\<open>io.PostOptions\<close>, \<open>tok_\<close> for \<^verbatim>\<open>RegistrationToken\<close>, ...),
    because several types of the source share field names (\<^verbatim>\<open>headers\<close>,
    \<^verbatim>\<open>cookies\<close>, \<^verbatim>\<open>host\<close>) and the function's local constants use the same
    names again. Local constants keep the names of the source.
  \<^item> A thrown exception and a rejected promise are both a result \<open>Inl e\<close>.
\<close>

subsection \<open>Platform functions: whitespace, numerals, dates\<close>

text \<open>The ASCII members of ECMAScript's WhiteSpace and LineTerminator classes.\<close>

definition is_space :: "char \<Rightarrow> bool" where
  "is_space c = (c \<in> set [CHR 0x09, CHR 0x0A, CHR 0x0B, CHR 0x0C, CHR 0x0D, CHR '' ''])"

definition is_digit :: "char \<Rightarrow> bool" where
  "is_digit c = (48 \<le> (of_char c :: nat) \<and> (of_char c :: nat) \<le> 57)"

definition digit_val :: "char \<Rightarrow> nat" where
  "digit_val c = of_char c - 48"

text \<open>The value of a string of decimal digits, most significant digit first.\<close>

definition digits_value :: "string \<Rightarrow> nat" where
  "digits_value ds = foldl (\<lambda>a c. 10 * a + digit_val c) 0 ds"

text \<open>
  \<^verbatim>\<open>parseInt(s, 10)\<close> of ECMA-262: leading white space is skipped, one sign
  is read, then the longest prefix of decimal digits; with no digit the result is
  \<^verbatim>\<open>NaN\<close>, here \<open>None\<close>. The result is the mathematical integer; JavaScript rounds
  it to a double, which \<open>new_Date\<close> below accounts for.
\<close>

definition parseInt :: "string \<Rightarrow> int option" where
  "parseInt inputString =
     (let S = dropWhile is_space inputString;
          sign = (case S of c # _ \<Rightarrow> if c = CHR ''-'' then - 1 else 1 | [] \<Rightarrow> (1 :: int));
          S' = (case S of c # r \<Rightarrow> if c = CHR ''-'' \<or> c = CHR ''+'' then r else S | [] \<Rightarrow> S);
          Z = takeWhile is_digit S'
      in if Z = [] then None else Some (sign * int (digits_value Z)))"

text \<open>
  \<^verbatim>\<open>new Date(1000 * expires)\<close>, as the time value of the date in milliseconds since
  the epoch, \<open>None\<close> being the invalid date (time value \<^verbatim>\<open>NaN\<close>). The argument is
  the number \<^verbatim>\<open>expires\<close>, \<open>None\<close> being \<^verbatim>\<open>NaN\<close>. TimeClip of ECMA-262
  makes every time value beyond \<open>8.64 * 10^15\<close> ms invalid. Integers up to \<open>2^53\<close>
  (more than \<open>8.64 * 10^15\<close>) are doubles, and rounding to a double is monotone, so the
  double arithmetic of the source yields exactly this: \<open>1000 * n\<close> when it is within
  the range, and the invalid date otherwise.
\<close>

definition new_Date :: "int option \<Rightarrow> int option" where
  "new_Date expires =
     (case expires of
        None \<Rightarrow> None
      | Some n \<Rightarrow> if \<bar>1000 * n\<bar> \<le> 8640000000000000 then Some (1000 * n) else None)"

text \<open>
  \<^verbatim>\<open>String(time)\<close> for an integer: its decimal numeral. (JavaScript switches to
  exponent notation from \<open>10^21\<close> on, far beyond any clock reading in seconds.)
\<close>

fun digits10 :: "nat \<Rightarrow> string" where
  "digits10 n = (if n < 10 then [char_of (48 + n)] else digits10 (n div 10) @ [char_of (48 + n mod 10)])"

declare digits10.simps [simp del]

definition String :: "int \<Rightarrow> string" where
  "String i = (if i < 0 then CHR ''-'' # digits10 (nat (- i)) else digits10 (nat i))"

text \<open>\<^verbatim>\<open>Buffer.from(s, "utf8")\<close>: the bytes of an ASCII string.\<close>

type_synonym Buffer = "nat list"

definition Buffer_from :: "string \<Rightarrow> Buffer" where
  "Buffer_from s = map of_char s"

subsection \<open>Data of the handshake\<close>

text \<open>\<^verbatim>\<open>io.Response\<close>: the fields the function reads.\<close>

record Response =
  res_statusCode :: int
  res_headers :: "string \<rightharpoonup> string"

text \<open>\<^verbatim>\<open>io.PostOptions\<close>; \<open>'c\<close> is the type of the cookie store.\<close>

record 'c PostOptions =
  req_uri :: string
  req_headers :: "(string \<times> string) list"
  req_cookies :: 'c
  req_body :: string

text \<open>
  What a call can fail with:
  \<^item> \<open>UnexpectedHttpStatusError res expected request\<close>, line 76;
  \<^item> \<open>Incident name response message\<close>, lines 83, 90 and 99 (the response is the
    \<^verbatim>\<open>data\<close> argument of line 83);
  \<^item> \<open>TypeError\<close>, the runtime error of Node's \<^verbatim>\<open>url.parse\<close> on an argument that
    is not a string;
  \<^item> \<open>HelperError\<close>, whatever \<^verbatim>\<open>parseHeaderParams\<close> throws;
  \<^item> \<open>TransportError\<close>, a rejection of \<^verbatim>\<open>io.post\<close>, which nothing catches.
\<close>

datatype 'c error =
    UnexpectedHttpStatusError Response "int set" "'c PostOptions"
  | Incident string "Response option" string
  | TypeError
  | HelperError string
  | TransportError string

record SkypeToken =
  skt_value :: string

record 'c Context =
  ctx_skypeToken :: SkypeToken
  ctx_cookies :: 'c

text \<open>
  The values a host takes at run time. The types of the source say \<^verbatim>\<open>string\<close> or
  \<^verbatim>\<open>undefined\<close>, but Node's \<^verbatim>\<open>url.parse\<close> gives \<^verbatim>\<open>host: null\<close> for a URI
  without a host, and the code passes that value on: line 82 tests for
  \<^verbatim>\<open>undefined\<close> only, line 85 compares with \<^verbatim>\<open>!==\<close>, line 88 makes it the next
  \<^verbatim>\<open>messagesHost\<close> and line 109 puts it into the token.
\<close>

datatype jsstring = Undefined | Null | Str string

text \<open>\<^verbatim>\<open>RegisterEndpointOptions\<close>; an absent \<^verbatim>\<open>messagesHost\<close> is \<open>Undefined\<close>.\<close>

record RegisterEndpointOptions =
  opt_messagesHost :: jsstring
  opt_retry :: "int option"

text \<open>The part of Node's \<^verbatim>\<open>Url\<close> that is read, \<^verbatim>\<open>host\<close>.\<close>

record Url =
  url_host :: jsstring

text \<open>
  \<^verbatim>\<open>RegistrationToken\<close>. The expiration date is the time value of the \<^verbatim>\<open>Date\<close>
  (see \<open>new_Date\<close>); \<^verbatim>\<open>raw\<close> is the header as it was read, so it is an option;
  \<^verbatim>\<open>host\<close> is the \<^verbatim>\<open>messagesHost\<close> of the call.
\<close>

record RegistrationToken =
  tok_value :: string
  tok_expirationDate :: "int option"
  tok_endpointId :: string
  tok_raw :: "string option"
  tok_host :: jsstring

subsection \<open>The modules the file imports\<close>

text \<open>
  The constants and helpers of the repository that the file imports but that are
  defined elsewhere (\<^verbatim>\<open>../consts\<close>, \<^verbatim>\<open>../utils\<close>, \<^verbatim>\<open>../utils/hmac-sha256\<close>,
  \<^verbatim>\<open>../messages-uri\<close>) and the URI parser of Node are parameters of the model.
  \<open>'w\<close> is the state of the world outside the function: the clock and whatever
  the transport talks to. \<^verbatim>\<open>parseHeaderParams\<close> is handed a header that may be
  \<^verbatim>\<open>undefined\<close>, so it may throw; \<^verbatim>\<open>messagesUri.endpoints\<close> is handed a host
  that may be \<^verbatim>\<open>null\<close>, and builds a URI from it.

  Modelled from the spec: the keyed hash \<^verbatim>\<open>hmacSha256\<close> of
  \<^verbatim>\<open>../utils/hmac-sha256\<close> is not among the sources. The specification treats it as
  a black box that maps the message and the two parts of the key to a digest; the
  field \<open>hmacSha256\<close> is such a function.
\<close>

record Consts =
  SKYPEWEB_LOCKANDKEY_APPID :: string
  SKYPEWEB_LOCKANDKEY_SECRET :: string
  SKYPEWEB_CLIENTINFO_NAME :: string
  SKYPEWEB_CLIENTINFO_VERSION :: string
  SKYPEWEB_DEFAULT_MESSAGES_HOST :: string

record ('w, 'c) env =
  Consts :: Consts
  hmacSha256 :: "Buffer \<Rightarrow> Buffer \<Rightarrow> Buffer \<Rightarrow> string"
  getCurrentTime :: "'w \<Rightarrow> int"
  stringifyHeaderParams :: "(string \<times> string) list \<Rightarrow> string"
  parseHeaderParams :: "string option \<Rightarrow> 'c error + (string \<rightharpoonup> string)"
  messagesUri_endpoints :: "jsstring \<Rightarrow> string"
  parseUri :: "string \<Rightarrow> Url"

text \<open>
  \<^verbatim>\<open>io.HttpIo\<close>: the transport. A POST answers with a response or fails, and
  changes the world.
\<close>

record ('w, 'c) HttpIo =
  post :: "'c PostOptions \<Rightarrow> 'w \<Rightarrow> ('c error + Response) \<times> 'w"

text \<open>
  The state a call runs in: the world, and the exchanges with the transport so far,
  oldest first. The log is there to count and inspect the requests; the code never
  reads it.
\<close>

record ('w, 'c) state =
  world :: 'w
  exchanges :: "('c PostOptions \<times> ('c error + Response)) list"

definition io_post ::
  "('w, 'c) HttpIo \<Rightarrow> 'c PostOptions \<Rightarrow> ('w, 'c) state \<Rightarrow> ('c error + Response) \<times> ('w, 'c) state" where
  "io_post io requestOptions s =
     (let (r, w') = post io requestOptions (world s)
      in (r, \<lparr>world = w', exchanges = exchanges s @ [(requestOptions, r)]\<rparr>))"

subsection \<open>getLockAndKeyResponse (lines 12 to 17)\<close>

definition getLockAndKeyResponse :: "('w, 'c) env \<Rightarrow> int \<Rightarrow> string" where
  "getLockAndKeyResponse E time =
     (let inputBuffer = Buffer_from (String time);
          appIdBuffer = Buffer_from (SKYPEWEB_LOCKANDKEY_APPID (Consts E));
          secretBuffer = Buffer_from (SKYPEWEB_LOCKANDKEY_SECRET (Consts E))
      in hmacSha256 E inputBuffer appIdBuffer secretBuffer)"

subsection \<open>registerEndpoint (lines 33 to 111)\<close>

text \<open>JavaScript's truthiness of a dictionary entry: present and not the empty string.\<close>

definition truthy :: "string option \<Rightarrow> bool" where
  "truthy v = (case v of None \<Rightarrow> False | Some x \<Rightarrow> x \<noteq> [])"

definition expectedStatusCodes :: "int set" where
  "expectedStatusCodes = {201, 301}"

text \<open>Lines 61 to 63: the host to ask, the default one unless the options name one.\<close>

definition messagesHost_of :: "('w, 'c) env \<Rightarrow> RegisterEndpointOptions option \<Rightarrow> jsstring" where
  "messagesHost_of E options =
     (case options of
        None \<Rightarrow> Str (SKYPEWEB_DEFAULT_MESSAGES_HOST (Consts E))
      | Some opts \<Rightarrow>
          if opt_messagesHost opts = Undefined
          then Str (SKYPEWEB_DEFAULT_MESSAGES_HOST (Consts E))
          else opt_messagesHost opts)"

text \<open>
  Lines 38 to 70: the request of one call, built from the clock reading, the context
  and the options, before anything is sent.
\<close>

definition requestOptions_of ::
  "('w, 'c) env \<Rightarrow> 'c Context \<Rightarrow> RegisterEndpointOptions option \<Rightarrow> 'w \<Rightarrow> 'c PostOptions" where
  "requestOptions_of E apiContext options w =
     (let startTime = getCurrentTime E w;
          lockAndKeyResponse = getLockAndKeyResponse E startTime;
          headers =
            [(''LockAndKey'', stringifyHeaderParams E
                [(''appId'', SKYPEWEB_LOCKANDKEY_APPID (Consts E)),
                 (''time'', String startTime),
                 (''lockAndKeyResponse'', lockAndKeyResponse)]),
             (''ClientInfo'', stringifyHeaderParams E
                [(''os'', ''Windows''),
                 (''osVer'', ''10''),
                 (''proc'', ''Win64''),
                 (''lcid'', ''en-us''),
                 (''deviceType'', ''1''),
                 (''country'', ''n/a''),
                 (''clientName'', SKYPEWEB_CLIENTINFO_NAME (Consts E)),
                 (''clientVer'', SKYPEWEB_CLIENTINFO_VERSION (Consts E))]),
             (''Authentication'', stringifyHeaderParams E
                [(''skypetoken'', skt_value (ctx_skypeToken apiContext))])];
          messagesHost = messagesHost_of E options
      in \<lparr>req_uri = messagesUri_endpoints E messagesHost,
          req_headers = headers,
          req_cookies = ctx_cookies apiContext,
          req_body = ''{}''\<rparr>)"

text \<open>Line 86: the retry budget of a call, 2 unless the options give one.\<close>

definition retry_of :: "RegisterEndpointOptions option \<Rightarrow> int" where
  "retry_of options =
     (case options of
        None \<Rightarrow> 2
      | Some opts \<Rightarrow> (case opt_retry opts of None \<Rightarrow> 2 | Some n \<Rightarrow> n))"

text \<open>
  Lines 72 to 110. The function calls itself on a redirect, and nothing in it bounds
  the number of calls, so the model takes fuel: the number of calls it may make. The
  result \<open>None\<close> says that the call has not returned within the fuel; \<open>Some r\<close> is
  what it returns, \<open>Inl\<close> being a thrown error or a rejection. \<^verbatim>\<open>await io.post\<close>
  is the only effect. In the last branch \<open>the\<close> is applied to entries that the test
  before it has found present.
\<close>

fun registerEndpoint ::
  "nat \<Rightarrow> ('w, 'c) env \<Rightarrow> ('w, 'c) HttpIo \<Rightarrow> 'c Context \<Rightarrow> RegisterEndpointOptions option
     \<Rightarrow> ('w, 'c) state \<Rightarrow> ('c error + RegistrationToken) option \<times> ('w, 'c) state" where
  "registerEndpoint 0 E io apiContext options s = (None, s)"
| "registerEndpoint (Suc fuel) E io apiContext options s =
    (let messagesHost = messagesHost_of E options;
         requestOptions = requestOptions_of E apiContext options (world s);
         (r, s') = io_post io requestOptions s
     in case r of
          Inl e \<Rightarrow> (Some (Inl e), s')
        | Inr res \<Rightarrow>
            if res_statusCode res \<notin> expectedStatusCodes
            then (Some (Inl (UnexpectedHttpStatusError res expectedStatusCodes requestOptions)), s')
            else
              (case res_headers res ''location'' of
                 None \<Rightarrow> (Some (Inl TypeError), s')
               | Some locationHeader \<Rightarrow>
                   (let location = parseUri E locationHeader
                    in if url_host location = Undefined
                       then
                        (Some (Inl (Incident ''UndefinedLocationHost'' (Some res)
                           ''Expected the `location` header to define host'')), s')
                       else
                        if url_host location \<noteq> messagesHost
                        then
                          (let retry = retry_of options
                           in if retry > 0
                              then registerEndpoint fuel E io apiContext
                                     (Some \<lparr>opt_messagesHost = url_host location, opt_retry = Some retry\<rparr>) s'
                              else (Some (Inl (Incident ''net'' None ''Exceeded max tries'')), s'))
                        else
                          (let registrationTokenHeader = res_headers res ''set-registrationtoken''
                           in case parseHeaderParams E registrationTokenHeader of
                                Inl e \<Rightarrow> (Some (Inl e), s')
                              | Inr parsedHeader \<Rightarrow>
                                  if \<not> truthy (parsedHeader ''registrationToken'')
                                     \<or> \<not> truthy (parsedHeader ''expires'')
                                     \<or> \<not> truthy (parsedHeader ''endpointId'')
                                  then (Some (Inl (Incident ''protocol'' None
                                          ''Missing parameters for the registrationToken'')), s')
                                  else
                                    (let expires = parseInt (the (parsedHeader ''expires''))
                                     in (Some (Inr
                                           \<lparr>tok_value = the (parsedHeader ''registrationToken''),
                                            tok_expirationDate = new_Date expires,
                                            tok_endpointId = the (parsedHeader ''endpointId''),
                                            tok_raw = registrationTokenHeader,
                                            tok_host = messagesHost\<rparr>), s'))))))"

declare registerEndpoint.simps(2) [simp del]

subsection \<open>The header codec, from the specification\<close>

text \<open>
  Modelled from the spec: \<^verbatim>\<open>stringifyHeaderParams\<close> and \<^verbatim>\<open>parseHeaderParams\<close> are
  imported from \<^verbatim>\<open>../utils\<close>, which is not among the sources. The two definitions
  follow section 4.1 of the specification. \<open>HeaderCodec_stringify\<close> "renders each
  key/value pair as key=value, pairs joined by \<open>; \<close>", without escaping.
  \<open>HeaderCodec_parse\<close> "splits on \<open>;\<close>, trims whitespace, splits each segment on
  the first \<open>=\<close> into key/value, collects into a mapping (last occurrence of a
  duplicate key wins)", and a segment without \<open>=\<close> adds nothing. \<open>registerEndpoint\<close>
  above does not depend on them: it takes the two helpers as parameters.
\<close>

text \<open>\<^verbatim>\<open>Array.prototype.join\<close>.\<close>

fun join :: "string \<Rightarrow> string list \<Rightarrow> string" where
  "join sep [] = []"
| "join sep [x] = x"
| "join sep (x # y # ys) = x @ sep @ join sep (y # ys)"

text \<open>One pair, rendered.\<close>

definition segment :: "string \<times> string \<Rightarrow> string" where
  "segment p = (case p of (key, val) \<Rightarrow> key @ ''='' @ val)"

definition HeaderCodec_stringify :: "(string \<times> string) list \<Rightarrow> string" where
  "HeaderCodec_stringify params = join ''; '' (map segment params)"

text \<open>\<^verbatim>\<open>String.prototype.split\<close> at a separator of one character.\<close>

fun split_on :: "char \<Rightarrow> string \<Rightarrow> string list" where
  "split_on sep [] = [[]]"
| "split_on sep (c # cs) =
     (if c = sep then [] # split_on sep cs
      else (let r = split_on sep cs in (c # hd r) # tl r))"

definition trim :: "string \<Rightarrow> string" where
  "trim s = rev (dropWhile is_space (rev (dropWhile is_space s)))"

definition split_first :: "char \<Rightarrow> string \<Rightarrow> (string \<times> string) option" where
  "split_first sep s =
     (if sep \<in> set s
      then Some (takeWhile (\<lambda>c. c \<noteq> sep) s, tl (dropWhile (\<lambda>c. c \<noteq> sep) s))
      else None)"

text \<open>One segment, read into the mapping; a later entry for a key replaces an earlier one.\<close>

definition collect :: "(string \<rightharpoonup> string) \<Rightarrow> string \<Rightarrow> (string \<rightharpoonup> string)" where
  "collect m seg =
     (case split_first CHR ''='' (trim seg) of
        None \<Rightarrow> m
      | Some (key, val) \<Rightarrow> m(key \<mapsto> val))"

definition HeaderCodec_parse :: "string \<Rightarrow> (string \<rightharpoonup> string)" where
  "HeaderCodec_parse headerValue = foldl collect Map.empty (split_on CHR '';'' headerValue)"

text \<open>
  A pair that survives the codec: no \<open>;\<close> in it, no \<open>=\<close> in the key, no white
  space in front of the key and none behind the value.
\<close>

definition encodable :: "string \<times> string \<Rightarrow> bool" where
  "encodable p =
     (case p of (key, val) \<Rightarrow>
        CHR '';'' \<notin> set key \<and> CHR ''='' \<notin> set key \<and> CHR '';'' \<notin> set val
        \<and> dropWhile is_space key = key \<and> dropWhile is_space (rev val) = rev val)"

subsection \<open>An environment to run the model in\<close>

text \<open>
  One instance of the parameters, for evaluating the model on concrete inputs:
  constants of the right shape, an arithmetic stand-in for the keyed hash, the
  codec of the specification (which throws on \<^verbatim>\<open>undefined\<close>), the endpoint path of
  the service, built like a template string, and a parser that reads the host of an
  \<^verbatim>\<open>https\<close> URI and, like Node's, gives \<^verbatim>\<open>null\<close> when there is none. The world is a
  counter that every POST advances; the clock reads it. The theorems below hold for
  every environment; this one only shows them at work.
\<close>

definition sample_Consts :: Consts where
  "sample_Consts =
     \<lparr>SKYPEWEB_LOCKANDKEY_APPID = ''app@example.com'',
      SKYPEWEB_LOCKANDKEY_SECRET = ''S3CR3T'',
      SKYPEWEB_CLIENTINFO_NAME = ''client'',
      SKYPEWEB_CLIENTINFO_VERSION = ''1.0'',
      SKYPEWEB_DEFAULT_MESSAGES_HOST = ''a.example''\<rparr>"

definition sample_hmacSha256 :: "Buffer \<Rightarrow> Buffer \<Rightarrow> Buffer \<Rightarrow> string" where
  "sample_hmacSha256 input appId secret = digits10 (sum_list (input @ appId @ secret))"

definition sample_parseUri :: "string \<Rightarrow> Url" where
  "sample_parseUri u =
     (if take 8 u = ''https://''
      then \<lparr>url_host = Str (takeWhile (\<lambda>c. c \<noteq> CHR ''/'') (drop 8 u))\<rparr>
      else \<lparr>url_host = Null\<rparr>)"

definition sample_endpoints :: "jsstring \<Rightarrow> string" where
  "sample_endpoints h =
     ''https://'' @ (case h of Str x \<Rightarrow> x | Null \<Rightarrow> ''null'' | Undefined \<Rightarrow> ''undefined'')
       @ ''/v1/users/ME/endpoints''"

definition sample_env :: "(nat, unit) env" where
  "sample_env =
     \<lparr>Consts = sample_Consts,
      hmacSha256 = sample_hmacSha256,
      getCurrentTime = (\<lambda>w. 1700000000 + int w),
      stringifyHeaderParams = HeaderCodec_stringify,
      parseHeaderParams = (\<lambda>h. case h of None \<Rightarrow> Inl TypeError | Some v \<Rightarrow> Inr (HeaderCodec_parse v)),
      messagesUri_endpoints = sample_endpoints,
      parseUri = sample_parseUri\<rparr>"

definition sample_Context :: "unit Context" where
  "sample_Context = \<lparr>ctx_skypeToken = \<lparr>skt_value = ''tok''\<rparr>, ctx_cookies = ()\<rparr>"

definition start :: "(nat, unit) state" where
  "start = \<lparr>world = 0, exchanges = []\<rparr>"

definition answer :: "int \<Rightarrow> (string \<times> string) list \<Rightarrow> Response" where
  "answer code hs = \<lparr>res_statusCode = code, res_headers = map_of hs\<rparr>"

text \<open>A response that names host \<open>h\<close> in its location and carries a token header.\<close>

definition token_response :: "int \<Rightarrow> string \<Rightarrow> string \<Rightarrow> Response" where
  "token_response code h header =
     answer code
       [(''location'', ''https://'' @ h @ ''/v1/users/ME/endpoints''),
        (''set-registrationtoken'', header)]"

text \<open>A transport that gives the same answer to every request.\<close>

definition io_always :: "Response \<Rightarrow> (nat, unit) HttpIo" where
  "io_always res = \<lparr>post = (\<lambda>requestOptions w. (Inr res, Suc w))\<rparr>"


text \<open>Two hosts that redirect to each other.\<close>

definition other_host :: "string \<Rightarrow> string" where
  "other_host h = (if h = ''a.example'' then ''b.example'' else ''a.example'')"

definition io_bounce :: "(nat, unit) HttpIo" where
  "io_bounce =
     \<lparr>post = (\<lambda>requestOptions w.
        (Inr (answer 301
           [(''location'',
             if req_uri requestOptions = ''https://a.example/v1/users/ME/endpoints''
             then ''https://b.example/v1/users/ME/endpoints''
             else ''https://a.example/v1/users/ME/endpoints'')]), Suc w))\<rparr>"

subsection \<open>What a token is made from\<close>

text \<open>
  \<open>issued_from E x tok\<close>: the exchange \<open>x\<close> is a request to the host of \<open>tok\<close> that was
  answered by an accepted response whose location has that host (the same value, and
  not \<^verbatim>\<open>undefined\<close>) and whose token header parses to the three fields of \<open>tok\<close>.
\<close>

definition issued_from ::
  "('w, 'c) env \<Rightarrow> 'c PostOptions \<times> ('c error + Response) \<Rightarrow> RegistrationToken \<Rightarrow> bool" where
  "issued_from E x tok =
     (case snd x of
        Inl e \<Rightarrow> False
      | Inr res \<Rightarrow>
          req_uri (fst x) = messagesUri_endpoints E (tok_host tok) \<and>
          res_statusCode res \<in> expectedStatusCodes \<and>
          (case res_headers res ''location'' of
             None \<Rightarrow> False
           | Some locationHeader \<Rightarrow>
               url_host (parseUri E locationHeader) = tok_host tok \<and> tok_host tok \<noteq> Undefined) \<and>
          (case parseHeaderParams E (res_headers res ''set-registrationtoken'') of
             Inl e \<Rightarrow> False
           | Inr parsedHeader \<Rightarrow>
               truthy (parsedHeader ''registrationToken'') \<and>
               truthy (parsedHeader ''expires'') \<and>
               truthy (parsedHeader ''endpointId'') \<and>
               tok_value tok = the (parsedHeader ''registrationToken'') \<and>
               tok_expirationDate tok = new_Date (parseInt (the (parsedHeader ''expires''))) \<and>
               tok_endpointId tok = the (parsedHeader ''endpointId'') \<and>
               tok_raw tok = res_headers res ''set-registrationtoken''))"


section \<open>Properties\<close>

subsection \<open>One call\<close>

lemma req_uri_requestOptions_of:
  "req_uri (requestOptions_of E apiContext options w) =
     messagesUri_endpoints E (messagesHost_of E options)"
  by (simp add: requestOptions_of_def Let_def)

text \<open>The host that is asked is never \<^verbatim>\<open>undefined\<close>; it may be \<^verbatim>\<open>null\<close>.\<close>

lemma messagesHost_of_defined: "messagesHost_of E options \<noteq> Undefined"
  by (simp add: messagesHost_of_def split: option.splits)

text \<open>The branches of one call, for a POST that was answered by \<open>res\<close>.\<close>

lemma call_unexpected_status:
  assumes "post io (requestOptions_of E apiContext options (world s)) (world s) = (Inr res, w')"
    and "res_statusCode res \<notin> {201, 301}"
  shows "registerEndpoint (Suc fuel) E io apiContext options s =
     (Some (Inl (UnexpectedHttpStatusError res {201, 301}
        (requestOptions_of E apiContext options (world s)))),
      \<lparr>world = w',
       exchanges = exchanges s @ [(requestOptions_of E apiContext options (world s), Inr res)]\<rparr>)"
  using assms
  by (simp add: registerEndpoint.simps(2) io_post_def expectedStatusCodes_def Let_def
        messagesHost_of_defined)

lemma call_no_location:
  assumes "post io (requestOptions_of E apiContext options (world s)) (world s) = (Inr res, w')"
    and "res_statusCode res \<in> {201, 301}"
    and "res_headers res ''location'' = None"
  shows "registerEndpoint (Suc fuel) E io apiContext options s =
     (Some (Inl TypeError),
      \<lparr>world = w',
       exchanges = exchanges s @ [(requestOptions_of E apiContext options (world s), Inr res)]\<rparr>)"
  using assms
  by (simp add: registerEndpoint.simps(2) io_post_def expectedStatusCodes_def Let_def
        messagesHost_of_defined)

lemma call_redirect:
  assumes "post io (requestOptions_of E apiContext options (world s)) (world s) = (Inr res, w')"
    and "res_statusCode res \<in> {201, 301}"
    and "res_headers res ''location'' = Some locationHeader"
    and "url_host (parseUri E locationHeader) = h"
    and "h \<noteq> Undefined"
    and "h \<noteq> messagesHost_of E options"
    and "retry_of options > 0"
  shows "registerEndpoint (Suc fuel) E io apiContext options s =
     registerEndpoint fuel E io apiContext
       (Some \<lparr>opt_messagesHost = h, opt_retry = Some (retry_of options)\<rparr>)
       \<lparr>world = w',
        exchanges = exchanges s @ [(requestOptions_of E apiContext options (world s), Inr res)]\<rparr>"
  using assms
  by (simp add: registerEndpoint.simps(2) io_post_def expectedStatusCodes_def Let_def
        messagesHost_of_defined)

lemma call_token_header:
  assumes "post io (requestOptions_of E apiContext options (world s)) (world s) = (Inr res, w')"
    and "res_statusCode res \<in> {201, 301}"
    and "res_headers res ''location'' = Some locationHeader"
    and "url_host (parseUri E locationHeader) = messagesHost_of E options"
    and "parseHeaderParams E (res_headers res ''set-registrationtoken'') = Inr parsedHeader"
  shows "registerEndpoint (Suc fuel) E io apiContext options s =
     (if \<not> truthy (parsedHeader ''registrationToken'')
         \<or> \<not> truthy (parsedHeader ''expires'')
         \<or> \<not> truthy (parsedHeader ''endpointId'')
      then Some (Inl (Incident ''protocol'' None ''Missing parameters for the registrationToken''))
      else Some (Inr
             \<lparr>tok_value = the (parsedHeader ''registrationToken''),
              tok_expirationDate = new_Date (parseInt (the (parsedHeader ''expires''))),
              tok_endpointId = the (parsedHeader ''endpointId''),
              tok_raw = res_headers res ''set-registrationtoken'',
              tok_host = messagesHost_of E options\<rparr>),
      \<lparr>world = w',
       exchanges = exchanges s @ [(requestOptions_of E apiContext options (world s), Inr res)]\<rparr>)"
  using assms
  by (simp add: registerEndpoint.simps(2) io_post_def expectedStatusCodes_def Let_def
        messagesHost_of_defined)

lemma call_transport_error:
  assumes "post io (requestOptions_of E apiContext options (world s)) (world s) = (Inl e, w')"
  shows "registerEndpoint (Suc fuel) E io apiContext options s =
     (Some (Inl e),
      \<lparr>world = w',
       exchanges = exchanges s @ [(requestOptions_of E apiContext options (world s), Inl e)]\<rparr>)"
  using assms by (simp add: registerEndpoint.simps(2) io_post_def Let_def)

lemma call_undefined_host:
  assumes "post io (requestOptions_of E apiContext options (world s)) (world s) = (Inr res, w')"
    and "res_statusCode res \<in> {201, 301}"
    and "res_headers res ''location'' = Some locationHeader"
    and "url_host (parseUri E locationHeader) = Undefined"
  shows "registerEndpoint (Suc fuel) E io apiContext options s =
     (Some (Inl (Incident ''UndefinedLocationHost'' (Some res)
        ''Expected the `location` header to define host'')),
      \<lparr>world = w',
       exchanges = exchanges s @ [(requestOptions_of E apiContext options (world s), Inr res)]\<rparr>)"
  using assms
  by (simp add: registerEndpoint.simps(2) io_post_def expectedStatusCodes_def Let_def
        messagesHost_of_defined)

lemma call_retries_exhausted:
  assumes "post io (requestOptions_of E apiContext options (world s)) (world s) = (Inr res, w')"
    and "res_statusCode res \<in> {201, 301}"
    and "res_headers res ''location'' = Some locationHeader"
    and "url_host (parseUri E locationHeader) = h"
    and "h \<noteq> Undefined"
    and "h \<noteq> messagesHost_of E options"
    and "retry_of options \<le> 0"
  shows "registerEndpoint (Suc fuel) E io apiContext options s =
     (Some (Inl (Incident ''net'' None ''Exceeded max tries'')),
      \<lparr>world = w',
       exchanges = exchanges s @ [(requestOptions_of E apiContext options (world s), Inr res)]\<rparr>)"
  using assms
  by (simp add: registerEndpoint.simps(2) io_post_def expectedStatusCodes_def Let_def
        messagesHost_of_defined)

lemma call_helper_error:
  assumes "post io (requestOptions_of E apiContext options (world s)) (world s) = (Inr res, w')"
    and "res_statusCode res \<in> {201, 301}"
    and "res_headers res ''location'' = Some locationHeader"
    and "url_host (parseUri E locationHeader) = messagesHost_of E options"
    and "parseHeaderParams E (res_headers res ''set-registrationtoken'') = Inl e"
  shows "registerEndpoint (Suc fuel) E io apiContext options s =
     (Some (Inl e),
      \<lparr>world = w',
       exchanges = exchanges s @ [(requestOptions_of E apiContext options (world s), Inr res)]\<rparr>)"
  using assms
  by (simp add: registerEndpoint.simps(2) io_post_def expectedStatusCodes_def Let_def
        messagesHost_of_defined)

text \<open>
  Without a budget nothing is retried: a call whose budget is not positive makes one
  POST and returns.
\<close>

lemma no_budget_one_post:
  assumes "retry_of options \<le> 0"
  shows "\<exists>r s'. registerEndpoint (Suc fuel) E io apiContext options s = (Some r, s')
           \<and> length (exchanges s') = Suc (length (exchanges s))"
proof -
  obtain x w' where p: "post io (requestOptions_of E apiContext options (world s)) (world s) = (x, w')"
    by (cases "post io (requestOptions_of E apiContext options (world s)) (world s)")
  show ?thesis
    using assms p
    by (auto simp: registerEndpoint.simps(2) io_post_def Let_def
          split: sum.splits option.splits)
qed

text \<open>
  With a parser that never gives \<^verbatim>\<open>undefined\<close> for the host, as Node's, which gives
  \<^verbatim>\<open>null\<close>, the error of line 83 is never raised.
\<close>

lemma undefined_host_unreachable:
  assumes "\<And>u. url_host (parseUri E u) \<noteq> Undefined"
    and "\<And>req w e w'. post io req w = (Inl e, w') \<Longrightarrow>
           \<forall>d m. e \<noteq> Incident ''UndefinedLocationHost'' d m"
    and "\<And>h e. parseHeaderParams E h = Inl e \<Longrightarrow>
           \<forall>d m. e \<noteq> Incident ''UndefinedLocationHost'' d m"
  shows "registerEndpoint fuel E io apiContext options s \<noteq>
           (Some (Inl (Incident ''UndefinedLocationHost'' d m)), s')"
proof (induction fuel arbitrary: options s)
  case 0
  show ?case by simp
next
  case (Suc fuel)
  obtain r w' where p: "post io (requestOptions_of E apiContext options (world s)) (world s) = (r, w')"
    by (cases "post io (requestOptions_of E apiContext options (world s)) (world s)")
  show ?case
    using Suc.IH p assms(1)
    by (auto simp: registerEndpoint.simps(2) io_post_def Let_def
          split: sum.splits if_splits option.splits dest: assms(2) assms(3))
qed


text \<open>Every token that is returned comes from the last exchange. By induction on the fuel.\<close>

lemma success_issued_from:
  "registerEndpoint fuel E io apiContext options s = (Some (Inr tok), s') \<Longrightarrow>
     exchanges s' \<noteq> [] \<and> issued_from E (last (exchanges s')) tok"
proof (induction fuel arbitrary: options s)
  case 0
  then show ?case by simp
next
  case (Suc fuel)
  obtain r w' where p: "post io (requestOptions_of E apiContext options (world s)) (world s) = (r, w')"
    by (cases "post io (requestOptions_of E apiContext options (world s)) (world s)")
  show ?case
    using Suc.prems Suc.IH p
    by (auto simp: registerEndpoint.simps(2) io_post_def Let_def issued_from_def
          req_uri_requestOptions_of messagesHost_of_defined
          split: sum.splits if_splits option.splits)
qed

subsection \<open>Numerals\<close>

lemma is_digit_not_space: "is_digit c \<Longrightarrow> \<not> is_space c"
  by (auto simp: is_digit_def is_space_def)

lemma is_digit_not_sign: "is_digit c \<Longrightarrow> c \<noteq> CHR ''-'' \<and> c \<noteq> CHR ''+''"
  by (auto simp: is_digit_def)

lemma parseInt_digits:
  assumes "ds \<noteq> []" and "\<forall>c \<in> set ds. is_digit c"
  shows "parseInt ds = Some (int (digits_value ds))"
proof -
  obtain c cs where ds: "ds = c # cs"
    using assms(1) by (cases ds) auto
  have c: "is_digit c"
    using assms(2) ds by simp
  have 1: "dropWhile is_space ds = ds"
    using is_digit_not_space [OF c] ds by simp
  have 2: "takeWhile is_digit ds = ds"
    using assms(2) by (simp add: takeWhile_eq_all_conv)
  show ?thesis
    unfolding parseInt_def 1
    using is_digit_not_sign [OF c] 2 assms(1) by (simp add: ds)
qed

text \<open>A sign in front of the digits is read as well.\<close>

lemma parseInt_signed_digits:
  assumes "ds \<noteq> []" and "\<forall>c \<in> set ds. is_digit c"
  shows "parseInt (CHR ''-'' # ds) = Some (- int (digits_value ds))"
    and "parseInt (CHR ''+'' # ds) = Some (int (digits_value ds))"
proof -
  have 2: "takeWhile is_digit ds = ds"
    using assms(2) by (simp add: takeWhile_eq_all_conv)
  show "parseInt (CHR ''-'' # ds) = Some (- int (digits_value ds))"
    using assms(1) by (simp add: parseInt_def is_space_def 2 Let_def)
  show "parseInt (CHR ''+'' # ds) = Some (int (digits_value ds))"
    using assms(1) by (simp add: parseInt_def is_space_def 2 Let_def)
qed

text \<open>The date of a number that \<open>parseInt\<close> has read: in the range of a date, or invalid.\<close>

lemma new_Date_Some:
  "new_Date (Some n) = (if \<bar>n\<bar> \<le> 8640000000000 then Some (1000 * n) else None)"
  by (simp add: new_Date_def abs_mult)

subsection \<open>Evaluation in the sample environment\<close>

lemmas codec_defs = HeaderCodec_parse_def collect_def split_first_def trim_def is_space_def

lemmas numeral_defs = parseInt_def is_space_def is_digit_def digits_value_def digit_val_def new_Date_def

lemmas sample_defs = sample_env_def sample_Consts_def sample_parseUri_def sample_endpoints_def answer_def
  token_response_def start_def io_post_def expectedStatusCodes_def messagesHost_of_def
  retry_of_def truthy_def Let_def

lemma post_io_always:
  "post (io_always res) requestOptions w = (Inr res, Suc w)"
  by (simp add: io_always_def)

lemma token_response_accepted:
  "res_statusCode (token_response 201 h header) \<in> {201, 301}"
  by (simp add: token_response_def answer_def)

lemma token_response_location:
  "res_headers (token_response code h header) ''location'' =
     Some (''https://'' @ h @ ''/v1/users/ME/endpoints'')"
  by (simp add: token_response_def answer_def)

lemma token_response_header:
  "res_headers (token_response code h header) ''set-registrationtoken'' = Some header"
  by (simp add: token_response_def answer_def)

lemma sample_location_host:
  "url_host (parseUri sample_env (''https://a.example/v1/users/ME/endpoints'')) =
     messagesHost_of sample_env None"
  by (simp add: sample_defs)

lemma sample_parse:
  "parseHeaderParams sample_env (Some header) = Inr (HeaderCodec_parse header)"
  by (simp add: sample_env_def)

subsection \<open>Status validation\<close>

text \<open>
  C3. When the status code of the response is neither 201 nor 301, the call fails at
  once with the unexpected-status error, which carries the response, the accepted set
  and the request. The call returns whatever the fuel (one call is enough), and the
  only exchange it adds to the log is the POST that was answered: nothing is retried.
\<close>

theorem unexpected_status_fails_without_retry:
  assumes "post io (requestOptions_of E apiContext options (world s)) (world s) = (Inr res, w')"
    and "res_statusCode res \<notin> {201, 301}"
  shows "registerEndpoint (Suc fuel) E io apiContext options s =
     (Some (Inl (UnexpectedHttpStatusError res {201, 301}
        (requestOptions_of E apiContext options (world s)))),
      \<lparr>world = w',
       exchanges = exchanges s @ [(requestOptions_of E apiContext options (world s), Inr res)]\<rparr>)"
  using assms by (rule call_unexpected_status)

text \<open>The example of the specification: status 404, with fuel for five calls.\<close>

theorem unexpected_status_fails_without_retry_witness:
  "res_statusCode (answer 404 []) \<notin> {201, 301}
   \<and> registerEndpoint 5 sample_env (io_always (answer 404 [])) sample_Context None start =
       (Some (Inl (UnexpectedHttpStatusError (answer 404 []) {201, 301}
          (requestOptions_of sample_env sample_Context None 0))),
        \<lparr>world = 1,
         exchanges = [(requestOptions_of sample_env sample_Context None 0, Inr (answer 404 []))]\<rparr>)"
proof -
  have st: "res_statusCode (answer 404 []) \<notin> {201, 301}"
    by (simp add: answer_def)
  have five: "5 = Suc 4"
    by simp
  show ?thesis
    using unexpected_status_fails_without_retry [where E = sample_env and apiContext = sample_Context
        and options = None and s = start and fuel = 4, OF post_io_always st] st
    unfolding five by (simp add: start_def)
qed

subsection \<open>The location header\<close>

text \<open>
  C8. When an accepted response (201 or 301) has no location header, the call ends
  with the runtime type error of the URI parser, not with one of the errors the
  function raises itself: the test for a missing host (line 82) is reached only when
  the header is there.
\<close>

theorem missing_location_is_a_type_error:
  assumes "post io (requestOptions_of E apiContext options (world s)) (world s) = (Inr res, w')"
    and "res_statusCode res \<in> {201, 301}"
    and "res_headers res ''location'' = None"
  shows "registerEndpoint (Suc fuel) E io apiContext options s =
     (Some (Inl TypeError),
      \<lparr>world = w',
       exchanges = exchanges s @ [(requestOptions_of E apiContext options (world s), Inr res)]\<rparr>)"
  using assms by (rule call_no_location)

theorem missing_location_is_a_type_error_witness:
  "res_statusCode (answer 201 []) \<in> {201, 301}
   \<and> res_headers (answer 201 []) ''location'' = None
   \<and> registerEndpoint 1 sample_env (io_always (answer 201 [])) sample_Context None start =
       (Some (Inl TypeError),
        \<lparr>world = 1,
         exchanges = [(requestOptions_of sample_env sample_Context None 0, Inr (answer 201 []))]\<rparr>)"
proof -
  have st: "res_statusCode (answer 201 []) \<in> {201, 301}"
    by (simp add: answer_def)
  have l: "res_headers (answer 201 []) ''location'' = None"
    by (simp add: answer_def)
  show ?thesis
    using missing_location_is_a_type_error [where E = sample_env and apiContext = sample_Context
        and options = None and s = start and fuel = 0, OF post_io_always st l] st l
    by (simp add: start_def)
qed

subsection \<open>The fields of the token header\<close>

text \<open>
  C4. When an accepted response names the host that was asked and its parsed token
  header lacks one of the keys \<open>registrationToken\<close>, \<open>expires\<close> and \<open>endpointId\<close>,
  the call fails with the missing-parameters error; no token is returned and nothing
  is retried.
\<close>

theorem missing_field_is_rejected:
  assumes "post io (requestOptions_of E apiContext options (world s)) (world s) = (Inr res, w')"
    and "res_statusCode res \<in> {201, 301}"
    and "res_headers res ''location'' = Some locationHeader"
    and "url_host (parseUri E locationHeader) = messagesHost_of E options"
    and "parseHeaderParams E (res_headers res ''set-registrationtoken'') = Inr parsedHeader"
    and "parsedHeader ''registrationToken'' = None \<or> parsedHeader ''expires'' = None
         \<or> parsedHeader ''endpointId'' = None"
  shows "registerEndpoint (Suc fuel) E io apiContext options s =
     (Some (Inl (Incident ''protocol'' None ''Missing parameters for the registrationToken'')),
      \<lparr>world = w',
       exchanges = exchanges s @ [(requestOptions_of E apiContext options (world s), Inr res)]\<rparr>)"
proof -
  have "\<not> truthy (parsedHeader ''registrationToken'') \<or> \<not> truthy (parsedHeader ''expires'')
        \<or> \<not> truthy (parsedHeader ''endpointId'')"
    using assms(6) by (auto simp: truthy_def)
  then show ?thesis
    unfolding call_token_header [OF assms(1-5)] by simp
qed

text \<open>The example of the specification: a 201 response whose header has no \<open>endpointId\<close>.\<close>

theorem missing_field_is_rejected_witness:
  "HeaderCodec_parse ''registrationToken=abc; expires=1700000000'' ''endpointId'' = None
   \<and> registerEndpoint 1 sample_env
        (io_always (token_response 201 ''a.example'' ''registrationToken=abc; expires=1700000000''))
        sample_Context None start =
       (Some (Inl (Incident ''protocol'' None ''Missing parameters for the registrationToken'')),
        \<lparr>world = 1,
         exchanges =
           [(requestOptions_of sample_env sample_Context None 0,
             Inr (token_response 201 ''a.example'' ''registrationToken=abc; expires=1700000000''))]\<rparr>)"
proof -
  let ?header = "''registrationToken=abc; expires=1700000000''"
  have l: "res_headers (token_response 201 ''a.example'' ?header) ''location'' =
      Some ''https://a.example/v1/users/ME/endpoints''"
    by (simp add: token_response_location)
  have ph: "parseHeaderParams sample_env
      (res_headers (token_response 201 ''a.example'' ?header) ''set-registrationtoken'') =
      Inr (HeaderCodec_parse ?header)"
    by (simp add: token_response_header sample_parse)
  have e: "HeaderCodec_parse ?header ''endpointId'' = None"
    by (simp add: codec_defs)
  then have m: "HeaderCodec_parse ?header ''registrationToken'' = None
      \<or> HeaderCodec_parse ?header ''expires'' = None
      \<or> HeaderCodec_parse ?header ''endpointId'' = None"
    by simp
  show ?thesis
    using missing_field_is_rejected [where apiContext = sample_Context and s = start
        and fuel = 0, OF post_io_always token_response_accepted l sample_location_host ph m] e
    by (simp add: start_def)
qed

text \<open>
  C9. A key that is present with the empty string as its value is treated like a
  missing key: when one of the three entries of the parsed header is the empty
  string, the call fails with the same missing-parameters error.
\<close>

theorem empty_field_is_rejected:
  assumes "post io (requestOptions_of E apiContext options (world s)) (world s) = (Inr res, w')"
    and "res_statusCode res \<in> {201, 301}"
    and "res_headers res ''location'' = Some locationHeader"
    and "url_host (parseUri E locationHeader) = messagesHost_of E options"
    and "parseHeaderParams E (res_headers res ''set-registrationtoken'') = Inr parsedHeader"
    and "parsedHeader ''registrationToken'' = Some [] \<or> parsedHeader ''expires'' = Some []
         \<or> parsedHeader ''endpointId'' = Some []"
  shows "registerEndpoint (Suc fuel) E io apiContext options s =
     (Some (Inl (Incident ''protocol'' None ''Missing parameters for the registrationToken'')),
      \<lparr>world = w',
       exchanges = exchanges s @ [(requestOptions_of E apiContext options (world s), Inr res)]\<rparr>)"
proof -
  have "\<not> truthy (parsedHeader ''registrationToken'') \<or> \<not> truthy (parsedHeader ''expires'')
        \<or> \<not> truthy (parsedHeader ''endpointId'')"
    using assms(6) by (auto simp: truthy_def)
  then show ?thesis
    unfolding call_token_header [OF assms(1-5)] by simp
qed

text \<open>The example of the claim: \<open>registrationToken\<close> is there, with nothing after the \<open>=\<close>.\<close>

theorem empty_field_is_rejected_witness:
  "HeaderCodec_parse ''registrationToken=; expires=1700000000; endpointId={x}''
      ''registrationToken'' = Some []
   \<and> registerEndpoint 1 sample_env
        (io_always (token_response 201 ''a.example''
           ''registrationToken=; expires=1700000000; endpointId={x}''))
        sample_Context None start =
       (Some (Inl (Incident ''protocol'' None ''Missing parameters for the registrationToken'')),
        \<lparr>world = 1,
         exchanges =
           [(requestOptions_of sample_env sample_Context None 0,
             Inr (token_response 201 ''a.example''
                    ''registrationToken=; expires=1700000000; endpointId={x}''))]\<rparr>)"
proof -
  let ?header = "''registrationToken=; expires=1700000000; endpointId={x}''"
  have l: "res_headers (token_response 201 ''a.example'' ?header) ''location'' =
      Some ''https://a.example/v1/users/ME/endpoints''"
    by (simp add: token_response_location)
  have ph: "parseHeaderParams sample_env
      (res_headers (token_response 201 ''a.example'' ?header) ''set-registrationtoken'') =
      Inr (HeaderCodec_parse ?header)"
    by (simp add: token_response_header sample_parse)
  have e: "HeaderCodec_parse ?header ''registrationToken'' = Some []"
    by (simp add: codec_defs)
  then have m: "HeaderCodec_parse ?header ''registrationToken'' = Some []
      \<or> HeaderCodec_parse ?header ''expires'' = Some []
      \<or> HeaderCodec_parse ?header ''endpointId'' = Some []"
    by simp
  show ?thesis
    using empty_field_is_rejected [where apiContext = sample_Context and s = start
        and fuel = 0, OF post_io_always token_response_accepted l sample_location_host ph m] e
    by (simp add: start_def)
qed

subsection \<open>Where a token comes from\<close>





subsection \<open>The expiration date\<close>

text \<open>
  C5, as amended. When a handshake succeeds and \<open>parseInt\<close> reads the integer \<open>n\<close>
  from the \<open>expires\<close> field of the header the token was built from (the field's
  leading decimal numeral with its sign, so the value of the field when it is a
  decimal numeral), the expiration date of the token is exactly \<open>1000 * n\<close>
  milliseconds since the epoch when \<open>n\<close> is at most 8 640 000 000 000 in absolute
  value, the range of a JavaScript date, and the invalid date beyond that.
\<close>

theorem expiration_is_expires_times_1000:
  assumes "registerEndpoint fuel E io apiContext options s = (Some (Inr tok), s')"
    and "last (exchanges s') = (req, Inr res)"
    and "parseHeaderParams E (res_headers res ''set-registrationtoken'') = Inr parsedHeader"
    and "parsedHeader ''expires'' = Some expires"
    and "parseInt expires = Some n"
  shows "tok_expirationDate tok = (if \<bar>n\<bar> \<le> 8640000000000 then Some (1000 * n) else None)"
proof -
  from success_issued_from [OF assms(1)]
  have "issued_from E (last (exchanges s')) tok"
    by simp
  then have "tok_expirationDate tok = new_Date (parseInt expires)"
    using assms(2,3,4) by (simp add: issued_from_def split: option.splits)
  then show ?thesis
    unfolding assms(5) new_Date_Some .
qed

lemma run_direct:
  "registerEndpoint 1 sample_env
      (io_always (token_response 201 ''a.example'' header)) sample_Context None start =
   (if \<not> truthy (HeaderCodec_parse header ''registrationToken'')
         \<or> \<not> truthy (HeaderCodec_parse header ''expires'')
         \<or> \<not> truthy (HeaderCodec_parse header ''endpointId'')
    then Some (Inl (Incident ''protocol'' None ''Missing parameters for the registrationToken''))
    else Some (Inr
           \<lparr>tok_value = the (HeaderCodec_parse header ''registrationToken''),
            tok_expirationDate = new_Date (parseInt (the (HeaderCodec_parse header ''expires''))),
            tok_endpointId = the (HeaderCodec_parse header ''endpointId''),
            tok_raw = Some header,
            tok_host = Str ''a.example''\<rparr>),
    \<lparr>world = 1,
     exchanges =
       [(requestOptions_of sample_env sample_Context None 0,
         Inr (token_response 201 ''a.example'' header))]\<rparr>)"
proof -
  have l: "res_headers (token_response 201 ''a.example'' header) ''location'' =
      Some ''https://a.example/v1/users/ME/endpoints''"
    by (simp add: token_response_location)
  have ph: "parseHeaderParams sample_env
      (res_headers (token_response 201 ''a.example'' header) ''set-registrationtoken'') =
      Inr (HeaderCodec_parse header)"
    by (simp add: token_response_header sample_parse)
  have h: "messagesHost_of sample_env None = Str ''a.example''"
    by (simp add: sample_defs)
  show ?thesis
    using call_token_header [where apiContext = sample_Context and s = start and fuel = 0,
        OF post_io_always token_response_accepted l sample_location_host ph]
    by (simp add: start_def token_response_header h)
qed

text \<open>The example of the specification: \<open>expires=1700000000\<close> gives 1700000000000 ms.\<close>

theorem expiration_is_expires_times_1000_witness:
  "parseInt ''1700000000'' = Some 1700000000
   \<and> fst (registerEndpoint 1 sample_env
        (io_always (token_response 201 ''a.example''
           ''registrationToken=abc; expires=1700000000; endpointId={x}''))
        sample_Context None start) =
       Some (Inr \<lparr>tok_value = ''abc'', tok_expirationDate = Some 1700000000000,
               tok_endpointId = ''{x}'',
               tok_raw = Some ''registrationToken=abc; expires=1700000000; endpointId={x}'',
               tok_host = Str ''a.example''\<rparr>)"
proof -
  let ?header = "''registrationToken=abc; expires=1700000000; endpointId={x}''"
  let ?res = "token_response 201 ''a.example'' ?header"
  let ?tok = "\<lparr>tok_value = ''abc'',
      tok_expirationDate = new_Date (parseInt (the (HeaderCodec_parse ?header ''expires''))),
      tok_endpointId = ''{x}'', tok_raw = Some ?header, tok_host = Str ''a.example''\<rparr>"
  let ?s' = "\<lparr>world = 1,
      exchanges = [(requestOptions_of sample_env sample_Context None 0, Inr ?res)]\<rparr>"
  have f: "HeaderCodec_parse ?header ''registrationToken'' = Some ''abc''"
      "HeaderCodec_parse ?header ''expires'' = Some ''1700000000''"
      "HeaderCodec_parse ?header ''endpointId'' = Some ''{x}''"
    by (simp_all add: codec_defs)
  have run: "registerEndpoint 1 sample_env (io_always ?res) sample_Context None start =
      (Some (Inr ?tok), ?s')"
    unfolding run_direct by (simp add: f truthy_def)
  have l: "last (exchanges ?s') = (requestOptions_of sample_env sample_Context None 0, Inr ?res)"
    by simp
  have ph: "parseHeaderParams sample_env (res_headers ?res ''set-registrationtoken'') =
      Inr (HeaderCodec_parse ?header)"
    by (simp add: token_response_header sample_parse)
  have n: "parseInt ''1700000000'' = Some 1700000000"
    by (simp add: parseInt_def is_space_def is_digit_def digits_value_def digit_val_def)
  from expiration_is_expires_times_1000 [OF run l ph f(2) n]
  have "new_Date (parseInt (the (HeaderCodec_parse ?header ''expires''))) = Some 1700000000000"
    by simp
  then show ?thesis
    using n unfolding run by simp
qed

text \<open>
  C5 as it is stated fails beyond the range of a date: the handshake succeeds with
  \<open>expires=9000000000000\<close>, whose value times 1000 is 9000000000000000, and the
  expiration date of the token is the invalid date.
\<close>

theorem expiration_out_of_range_counterexample:
  "fst (registerEndpoint 1 sample_env
        (io_always (token_response 201 ''a.example''
           ''registrationToken=abc; expires=9000000000000; endpointId={x}''))
        sample_Context None start) =
       Some (Inr \<lparr>tok_value = ''abc'', tok_expirationDate = None,
               tok_endpointId = ''{x}'',
               tok_raw = Some ''registrationToken=abc; expires=9000000000000; endpointId={x}'',
               tok_host = Str ''a.example''\<rparr>)
   \<and> 1000 * int (digits_value ''9000000000000'') = 9000000000000000"
  unfolding run_direct by (simp add: codec_defs numeral_defs truthy_def)

text \<open>
  C10, as amended. The \<open>expires\<close> field is not validated. When an accepted response
  names the host that was asked and its parsed header has the three fields, none of
  them empty, and \<open>parseInt\<close> finds no decimal digit to read in \<open>expires\<close> (after
  leading white space and one sign) and so yields \<^verbatim>\<open>NaN\<close>, the call still succeeds: it
  returns a token whose expiration date is the invalid date, and raises no error.
\<close>

theorem expires_without_digits_gives_invalid_date:
  assumes "post io (requestOptions_of E apiContext options (world s)) (world s) = (Inr res, w')"
    and "res_statusCode res \<in> {201, 301}"
    and "res_headers res ''location'' = Some locationHeader"
    and "url_host (parseUri E locationHeader) = messagesHost_of E options"
    and "parseHeaderParams E (res_headers res ''set-registrationtoken'') = Inr parsedHeader"
    and "parsedHeader ''registrationToken'' = Some registrationToken" and "registrationToken \<noteq> []"
    and "parsedHeader ''expires'' = Some expires" and "expires \<noteq> []"
    and "parsedHeader ''endpointId'' = Some endpointId" and "endpointId \<noteq> []"
    and "parseInt expires = None"
  shows "registerEndpoint (Suc fuel) E io apiContext options s =
     (Some (Inr \<lparr>tok_value = registrationToken,
                 tok_expirationDate = None,
                 tok_endpointId = endpointId,
                 tok_raw = res_headers res ''set-registrationtoken'',
                 tok_host = messagesHost_of E options\<rparr>),
      \<lparr>world = w',
       exchanges = exchanges s @ [(requestOptions_of E apiContext options (world s), Inr res)]\<rparr>)"
  unfolding call_token_header [OF assms(1-5)]
  using assms(6-12) by (simp add: truthy_def new_Date_def)

text \<open>The example of the claim: \<open>expires=abc\<close>.\<close>

theorem expires_without_digits_gives_invalid_date_witness:
  "HeaderCodec_parse ''registrationToken=abc; expires=abc; endpointId={x}'' ''expires'' = Some ''abc''
   \<and> parseInt ''abc'' = None
   \<and> registerEndpoint 1 sample_env
        (io_always (token_response 201 ''a.example''
           ''registrationToken=abc; expires=abc; endpointId={x}''))
        sample_Context None start =
       (Some (Inr \<lparr>tok_value = ''abc'', tok_expirationDate = None,
               tok_endpointId = ''{x}'',
               tok_raw = Some ''registrationToken=abc; expires=abc; endpointId={x}'',
               tok_host = Str ''a.example''\<rparr>),
        \<lparr>world = 1,
         exchanges =
           [(requestOptions_of sample_env sample_Context None 0,
             Inr (token_response 201 ''a.example''
                    ''registrationToken=abc; expires=abc; endpointId={x}''))]\<rparr>)"
proof -
  let ?header = "''registrationToken=abc; expires=abc; endpointId={x}''"
  let ?res = "token_response 201 ''a.example'' ?header"
  have f: "HeaderCodec_parse ?header ''registrationToken'' = Some ''abc''"
      "HeaderCodec_parse ?header ''expires'' = Some ''abc''"
      "HeaderCodec_parse ?header ''endpointId'' = Some ''{x}''"
    by (simp_all add: codec_defs)
  have l: "res_headers ?res ''location'' = Some ''https://a.example/v1/users/ME/endpoints''"
    by (simp add: token_response_location)
  have ph: "parseHeaderParams sample_env (res_headers ?res ''set-registrationtoken'') =
      Inr (HeaderCodec_parse ?header)"
    by (simp add: token_response_header sample_parse)
  have n: "parseInt ''abc'' = None"
    by (simp add: numeral_defs)
  have h: "messagesHost_of sample_env None = Str ''a.example''"
    by (simp add: sample_defs)
  show ?thesis
    using expires_without_digits_gives_invalid_date [where apiContext = sample_Context
        and s = start and fuel = 0,
        OF post_io_always token_response_accepted l sample_location_host ph f(1) _ f(2) _ f(3) _ n]
      f(2) n
    by (simp add: start_def token_response_header h)
qed

text \<open>
  C10 as it is stated fails for a value that is not a number but starts with digits:
  with \<open>expires=12abc\<close> the call succeeds and the expiration date is a valid
  instant, 12000 ms.
\<close>

theorem expires_with_leading_digits_counterexample:
  "\<not> list_all is_digit ''12abc''
   \<and> registerEndpoint 1 sample_env
        (io_always (token_response 201 ''a.example''
           ''registrationToken=abc; expires=12abc; endpointId={x}''))
        sample_Context None start =
       (Some (Inr \<lparr>tok_value = ''abc'', tok_expirationDate = Some 12000,
               tok_endpointId = ''{x}'',
               tok_raw = Some ''registrationToken=abc; expires=12abc; endpointId={x}'',
               tok_host = Str ''a.example''\<rparr>),
        \<lparr>world = 1,
         exchanges =
           [(requestOptions_of sample_env sample_Context None 0,
             Inr (token_response 201 ''a.example''
                    ''registrationToken=abc; expires=12abc; endpointId={x}''))]\<rparr>)"
  unfolding run_direct by (simp add: codec_defs numeral_defs truthy_def)

subsection \<open>Redirects\<close>

text \<open>
  Against two hosts that redirect to each other, a call with a positive retry budget
  calls itself with the other host and the same budget.
\<close>

lemma bounce_step:
  assumes "0 < r"
  shows "\<exists>s'. registerEndpoint (Suc fuel) sample_env io_bounce sample_Context
            (Some \<lparr>opt_messagesHost = Str h, opt_retry = Some r\<rparr>) s =
          registerEndpoint fuel sample_env io_bounce sample_Context
            (Some \<lparr>opt_messagesHost = Str (other_host h), opt_retry = Some r\<rparr>) s'
          \<and> length (exchanges s') = Suc (length (exchanges s))"
proof -
  let ?options = "Some \<lparr>opt_messagesHost = Str h, opt_retry = Some r\<rparr>"
  let ?req = "requestOptions_of sample_env sample_Context ?options (world s)"
  let ?loc = "''https://'' @ other_host h @ ''/v1/users/ME/endpoints''"
  let ?res = "answer 301 [(''location'', ?loc)]"
  have host: "messagesHost_of sample_env ?options = Str h"
    by (simp add: messagesHost_of_def)
  have uri: "req_uri ?req = ''https://'' @ h @ ''/v1/users/ME/endpoints''"
    unfolding req_uri_requestOptions_of host by (simp add: sample_env_def sample_endpoints_def)
  have p: "post io_bounce ?req (world s) = (Inr ?res, Suc (world s))"
    by (simp add: io_bounce_def uri other_host_def)
  have st: "res_statusCode ?res \<in> {201, 301}"
    by (simp add: answer_def)
  have l: "res_headers ?res ''location'' = Some ?loc"
    by (simp add: answer_def)
  have u: "url_host (parseUri sample_env ?loc) = Str (other_host h)"
    by (simp add: sample_env_def sample_parseUri_def other_host_def)
  have n: "Str (other_host h) \<noteq> Undefined"
    by simp
  have d: "Str (other_host h) \<noteq> messagesHost_of sample_env ?options"
    unfolding host by (simp add: other_host_def)
  have r: "retry_of ?options > 0"
    using assms by (simp add: retry_of_def)
  have rr: "retry_of ?options = r"
    by (simp add: retry_of_def)
  show ?thesis
    using call_redirect [OF p st l u n d r, of fuel] unfolding rr
    by (intro exI conjI) (assumption, simp)
qed

lemma bounce_runs:
  assumes "0 < r"
  shows "fst (registerEndpoint fuel sample_env io_bounce sample_Context
               (Some \<lparr>opt_messagesHost = Str h, opt_retry = Some r\<rparr>) s) = None
         \<and> length (exchanges (snd (registerEndpoint fuel sample_env io_bounce sample_Context
               (Some \<lparr>opt_messagesHost = Str h, opt_retry = Some r\<rparr>) s)))
             = length (exchanges s) + fuel"
proof (induction fuel arbitrary: h s)
  case 0
  show ?case by simp
next
  case (Suc fuel)
  obtain s' where
    step: "registerEndpoint (Suc fuel) sample_env io_bounce sample_Context
            (Some \<lparr>opt_messagesHost = Str h, opt_retry = Some r\<rparr>) s =
          registerEndpoint fuel sample_env io_bounce sample_Context
            (Some \<lparr>opt_messagesHost = Str (other_host h), opt_retry = Some r\<rparr>) s'"
    and len: "length (exchanges s') = Suc (length (exchanges s))"
    using bounce_step [OF assms] by blast
  show ?case
    unfolding step using Suc.IH [of "other_host h" s'] len by simp
qed

text \<open>
  C1. The claim: a redirect is followed with the budget lowered by one, so a call
  with budget \<open>r\<close> makes at most \<open>r + 1\<close> POSTs. The code passes the budget on
  unchanged (line 88; see \<open>call_redirect\<close>). Against two hosts that redirect to
  each other, a call with any positive budget therefore never returns: whatever the
  number \<open>fuel\<close> of calls it is given, it has made \<open>fuel\<close> POSTs and has not
  returned.
\<close>

theorem redirects_never_exhaust_the_budget:
  assumes "0 < r"
  shows "fst (registerEndpoint fuel sample_env io_bounce sample_Context
               (Some \<lparr>opt_messagesHost = Str ''a.example'', opt_retry = Some r\<rparr>) start) = None
         \<and> length (exchanges (snd (registerEndpoint fuel sample_env io_bounce sample_Context
               (Some \<lparr>opt_messagesHost = Str ''a.example'', opt_retry = Some r\<rparr>) start))) = fuel"
  using bounce_runs [OF assms, of fuel "''a.example''" start] by (simp add: start_def)

text \<open>With budget 1 the third POST is made, one more than \<open>r + 1\<close>, and the call goes on.\<close>

theorem redirects_never_exhaust_the_budget_witness:
  "(0::int) < 1
   \<and> fst (registerEndpoint 3 sample_env io_bounce sample_Context
               (Some \<lparr>opt_messagesHost = Str ''a.example'', opt_retry = Some 1\<rparr>) start) = None
   \<and> length (exchanges (snd (registerEndpoint 3 sample_env io_bounce sample_Context
               (Some \<lparr>opt_messagesHost = Str ''a.example'', opt_retry = Some 1\<rparr>) start))) = 3
   \<and> (3::nat) > 1 + 1"
  using redirects_never_exhaust_the_budget [of 1 3] by simp

subsection \<open>The header codec\<close>

lemma split_on_no_sep: "sep \<notin> set a \<Longrightarrow> split_on sep a = [a]"
  by (induction a) (auto simp: Let_def)

lemma split_on_append:
  "sep \<notin> set a \<Longrightarrow> split_on sep (a @ sep # b) = a # split_on sep b"
  by (induction a) (auto simp: Let_def)

lemma segment_eq: "segment p = fst p @ CHR ''='' # snd p"
  by (cases p) (simp add: segment_def)

lemma split_on_join:
  assumes "\<forall>x \<in> set xs. CHR '';'' \<notin> set x"
  shows "split_on CHR '';'' (join ''; '' xs) =
           (case xs of [] \<Rightarrow> [[]] | x # ys \<Rightarrow> x # map ((#) CHR '' '') ys)"
  using assms
proof (induction "''; ''" xs rule: join.induct)
  case 1
  show ?case by simp
next
  case (2 x)
  then show ?case by (simp add: split_on_no_sep)
next
  case (3 x y ys)
  have "split_on CHR '';'' (x @ CHR '';'' # CHR '' '' # join ''; '' (y # ys)) =
      x # split_on CHR '';'' (CHR '' '' # join ''; '' (y # ys))"
    using 3(2) by (intro split_on_append) simp
  moreover have "split_on CHR '';'' (join ''; '' (y # ys)) = y # map ((#) CHR '' '') ys"
    using 3 by simp
  ultimately show ?case
    by (simp add: Let_def)
qed

lemma trim_space: "trim (CHR '' '' # s) = trim s"
  by (simp add: trim_def is_space_def)

lemma dropWhile_append_keep:
  assumes "dropWhile P xs = xs" and "xs \<noteq> []"
  shows "dropWhile P (xs @ ys) = xs @ ys"
proof -
  have "\<not> P (hd xs)"
    using hd_dropWhile [of P xs] assms by simp
  then show ?thesis
    using assms(2) by (cases xs) simp_all
qed

lemma not_space_eq: "\<not> is_space CHR ''=''"
  by (simp add: is_space_def)

lemma trim_segment:
  assumes "dropWhile is_space key = key" and "dropWhile is_space (rev val) = rev val"
  shows "trim (key @ CHR ''='' # val) = key @ CHR ''='' # val"
proof -
  have 1: "dropWhile is_space (key @ CHR ''='' # val) = key @ CHR ''='' # val"
  proof (cases key)
    case Nil
    then show ?thesis by (simp add: not_space_eq)
  next
    case (Cons c cs)
    then show ?thesis using assms(1) by (intro dropWhile_append_keep) simp_all
  qed
  have 2: "dropWhile is_space (rev (key @ CHR ''='' # val)) = rev (key @ CHR ''='' # val)"
  proof (cases val)
    case Nil
    then show ?thesis by (simp add: not_space_eq)
  next
    case (Cons c cs)
    have "dropWhile is_space (rev val @ (CHR ''='' # rev key)) = rev val @ (CHR ''='' # rev key)"
      using assms(2) Cons by (intro dropWhile_append_keep) simp_all
    then show ?thesis by simp
  qed
  show ?thesis
    unfolding trim_def 1 2 by simp
qed

lemma takeWhile_upto: "c \<notin> set key \<Longrightarrow> takeWhile (\<lambda>x. x \<noteq> c) (key @ c # val) = key"
  by (induction key) auto

lemma dropWhile_upto: "c \<notin> set key \<Longrightarrow> dropWhile (\<lambda>x. x \<noteq> c) (key @ c # val) = c # val"
  by (induction key) auto

lemma split_first_segment:
  assumes "CHR ''='' \<notin> set key"
  shows "split_first CHR ''='' (key @ CHR ''='' # val) = Some (key, val)"
  using assms by (simp add: split_first_def takeWhile_upto dropWhile_upto)

lemma collect_segment:
  "encodable p \<Longrightarrow> collect m (segment p) = m(fst p \<mapsto> snd p)"
  by (cases p) (simp add: collect_def segment_eq encodable_def trim_segment split_first_segment)

lemma collect_spaced_segment:
  "encodable p \<Longrightarrow> collect m (CHR '' '' # segment p) = m(fst p \<mapsto> snd p)"
  using collect_segment [of p m] by (simp add: collect_def trim_space)

lemma collect_empty: "collect m [] = m"
  by (simp add: collect_def trim_def split_first_def)

lemma foldl_collect_spaced:
  "\<forall>p \<in> set ps. encodable p \<Longrightarrow>
     foldl collect m (map ((#) CHR '' '' \<circ> segment) ps) = m ++ map_of (rev ps)"
proof (induction ps arbitrary: m)
  case Nil
  show ?case by simp
next
  case (Cons p ps)
  then show ?case
    by (cases p) (simp add: collect_spaced_segment map_add_upd_left)
qed

lemma segment_no_semicolon: "encodable p \<Longrightarrow> CHR '';'' \<notin> set (segment p)"
  by (cases p) (simp add: encodable_def segment_eq)

lemma parse_stringify_rev:
  assumes "\<forall>p \<in> set params. encodable p"
  shows "HeaderCodec_parse (HeaderCodec_stringify params) = map_of (rev params)"
proof (cases params)
  case Nil
  then show ?thesis
    by (simp add: HeaderCodec_parse_def HeaderCodec_stringify_def collect_empty)
next
  case (Cons p ps)
  have "\<forall>x \<in> set (map segment params). CHR '';'' \<notin> set x"
    using assms by (simp add: segment_no_semicolon)
  then have "split_on CHR '';'' (join ''; '' (map segment params)) =
      segment p # map ((#) CHR '' '') (map segment ps)"
    unfolding Cons by (subst split_on_join) simp_all
  then show ?thesis
    using assms Cons
    by (simp add: HeaderCodec_parse_def HeaderCodec_stringify_def collect_segment foldl_collect_spaced)
qed

text \<open>
  C6, as amended. For a mapping, given as the list of its pairs with distinct keys,
  in which no key or value contains \<open>;\<close>, no key contains \<open>=\<close>, no key starts with
  white space and no value ends with white space, parsing the stringified form gives
  the mapping back. (A value may contain \<open>=\<close>: a segment is split at its first one.)
\<close>

theorem parse_stringify_roundtrip:
  assumes "distinct (map fst params)" and "\<forall>p \<in> set params. encodable p"
  shows "HeaderCodec_parse (HeaderCodec_stringify params) = map_of params"
proof -
  have "distinct (map fst (rev params))"
    using assms(1) by (simp flip: rev_map)
  then have "map_of (rev params) = map_of params"
    using assms(1) by (simp add: map_of_inject_set)
  then show ?thesis
    unfolding parse_stringify_rev [OF assms(2)] .
qed

text \<open>The \<^verbatim>\<open>ClientInfo\<close> parameters that \<open>requestOptions_of\<close> builds in the sample environment.\<close>

theorem parse_stringify_roundtrip_witness:
  "distinct (map fst
      [(''os'', ''Windows''), (''osVer'', ''10''), (''proc'', ''Win64''), (''lcid'', ''en-us''),
       (''deviceType'', ''1''), (''country'', ''n/a''), (''clientName'', ''client''),
       (''clientVer'', ''1.0'')])
   \<and> list_all encodable
      [(''os'', ''Windows''), (''osVer'', ''10''), (''proc'', ''Win64''), (''lcid'', ''en-us''),
       (''deviceType'', ''1''), (''country'', ''n/a''), (''clientName'', ''client''),
       (''clientVer'', ''1.0'')]
   \<and> HeaderCodec_stringify
      [(''os'', ''Windows''), (''osVer'', ''10''), (''proc'', ''Win64''), (''lcid'', ''en-us''),
       (''deviceType'', ''1''), (''country'', ''n/a''), (''clientName'', ''client''),
       (''clientVer'', ''1.0'')] =
     ''os=Windows; osVer=10; proc=Win64; lcid=en-us; deviceType=1; country=n/a; clientName=client; clientVer=1.0''
   \<and> HeaderCodec_parse
     ''os=Windows; osVer=10; proc=Win64; lcid=en-us; deviceType=1; country=n/a; clientName=client; clientVer=1.0'' =
     map_of
      [(''os'', ''Windows''), (''osVer'', ''10''), (''proc'', ''Win64''), (''lcid'', ''en-us''),
       (''deviceType'', ''1''), (''country'', ''n/a''), (''clientName'', ''client''),
       (''clientVer'', ''1.0'')]"
proof -
  let ?params = "[(''os'', ''Windows''), (''osVer'', ''10''), (''proc'', ''Win64''),
       (''lcid'', ''en-us''), (''deviceType'', ''1''), (''country'', ''n/a''),
       (''clientName'', ''client''), (''clientVer'', ''1.0'')]"
  have d: "distinct (map fst ?params)"
    by simp
  have e: "\<forall>p \<in> set ?params. encodable p"
    by (simp add: encodable_def is_space_def)
  have s: "HeaderCodec_stringify ?params =
      ''os=Windows; osVer=10; proc=Win64; lcid=en-us; deviceType=1; country=n/a; clientName=client; clientVer=1.0''"
    by (simp add: HeaderCodec_stringify_def segment_def)
  show ?thesis
    using parse_stringify_roundtrip [OF d e] d e unfolding s by (simp add: list_all_iff)
qed

text \<open>
  C6 as it is stated fails for a value that ends with a space, such as the
  \<^verbatim>\<open>Authentication\<close> parameters of a context whose token is \<open>tok\<close> followed by a
  space: the value contains neither \<open>;\<close> nor \<open>=\<close>, and parsing trims it.
\<close>

theorem roundtrip_trailing_space_counterexample:
  "CHR '';'' \<notin> set ''skypetoken'' \<and> CHR ''='' \<notin> set ''skypetoken''
   \<and> CHR '';'' \<notin> set ''tok '' \<and> CHR ''='' \<notin> set ''tok ''
   \<and> HeaderCodec_stringify [(''skypetoken'', ''tok '')] = ''skypetoken=tok ''
   \<and> HeaderCodec_parse (HeaderCodec_stringify [(''skypetoken'', ''tok '')]) ''skypetoken'' = Some ''tok''
   \<and> map_of [(''skypetoken'', ''tok '')] ''skypetoken'' = Some ''tok ''
   \<and> HeaderCodec_parse (HeaderCodec_stringify [(''skypetoken'', ''tok '')])
       \<noteq> map_of [(''skypetoken'', ''tok '')]"
proof -
  have s: "HeaderCodec_stringify [(''skypetoken'', ''tok '')] = ''skypetoken=tok ''"
    by (simp add: HeaderCodec_stringify_def segment_def)
  have p: "HeaderCodec_parse ''skypetoken=tok '' ''skypetoken'' = Some ''tok''"
    by (simp add: codec_defs)
  have "HeaderCodec_parse ''skypetoken=tok '' \<noteq> map_of [(''skypetoken'', ''tok '')]"
  proof
    assume "HeaderCodec_parse ''skypetoken=tok '' = map_of [(''skypetoken'', ''tok '')]"
    then have "HeaderCodec_parse ''skypetoken=tok '' ''skypetoken'' =
        map_of [(''skypetoken'', ''tok '')] ''skypetoken''"
      by simp
    then show False
      unfolding p by simp
  qed
  then show ?thesis
    unfolding s using p by simp
qed

end
